theory Spec2Isabelle
  imports Complex_Main
begin

section \<open>Data model\<close>

text \<open>
  The TypeScript interfaces \<open>Location\<close> and \<open>Tree\<close> become records. A JavaScript
  \<open>number\<close> is read as a real number, as the data model of the specification does
  (a coordinate is a pair of real numbers); rounding and the special values of
  IEEE 754 are outside this development. The field \<open>id\<close> of \<open>Tree\<close> is written
  \<open>tree_id\<close>, since \<open>id\<close> is the identity function of HOL.
\<close>

record Location =
  latitude :: real
  longitude :: real

record Tree =
  tree_id :: string
  name :: string
  description :: string
  location :: Location
  image_url :: string
  tree_url :: string

text \<open>
  The state of the two stores. The ref \<open>location\<close> of the location store is written
  \<open>location_value\<close>, the name \<open>location\<close> being the field of \<open>Tree\<close>.
\<close>

record LocationStore =
  locatable :: bool
  location_value :: Location

record TreeStore =
  trees :: "Tree list"
  loading :: bool



section \<open>The getter \<open>closest_tree\<close>\<close>

text \<open>
  Reading a JavaScript array out of range yields \<open>undefined\<close>, which is \<open>None\<close> here.
\<close>

definition nth_opt :: "'a list \<Rightarrow> nat \<Rightarrow> 'a option" where
  "nth_opt xs i = (if i < length xs then Some (xs ! i) else None)"

text \<open>
  The callback of \<open>trees.value.map\<close>: the planar distance of one tree to the user.
\<close>

definition distance :: "Location \<Rightarrow> Tree \<Rightarrow> real" where
  "distance user tree =
     (let longDiff = longitude (location tree) - longitude user;
          latDiff = latitude (location tree) - latitude user
      in sqrt (longDiff * longDiff + latDiff * latDiff))"

text \<open>
  The callback of \<open>distances.reduce\<close>. The comparison
  \<open>currentValue < distances[previousValue]\<close> is false when the read is out of range
  (a comparison with \<open>undefined\<close>), so the previous index is kept there.
\<close>

definition reducer :: "'a::ord list \<Rightarrow> nat \<Rightarrow> 'a \<Rightarrow> nat \<Rightarrow> nat" where
  "reducer distances previousValue currentValue currentIndex =
     (case nth_opt distances previousValue of
        Some d \<Rightarrow> if currentValue < d then currentIndex else previousValue
      | None \<Rightarrow> previousValue)"

text \<open>
  \<open>Array.prototype.reduce\<close> with an initial value: the callback is applied to the
  elements from left to right, each with its index.
\<close>

fun reduce_from :: "'a::ord list \<Rightarrow> nat \<Rightarrow> 'a list \<Rightarrow> nat \<Rightarrow> nat" where
  "reduce_from distances acc [] currentIndex = acc"
| "reduce_from distances acc (currentValue # rest) currentIndex =
     reduce_from distances (reducer distances acc currentValue currentIndex) rest (Suc currentIndex)"

definition iMin :: "'a::ord list \<Rightarrow> nat" where
  "iMin distances = reduce_from distances 0 distances 0"

definition closest_tree :: "TreeStore \<Rightarrow> LocationStore \<Rightarrow> Tree option" where
  "closest_tree treeStore locationStore =
     (if \<not> locatable locationStore \<or> loading treeStore \<or> length (trees treeStore) = 0
      then None
      else let distances = map (distance (location_value locationStore)) (trees treeStore)
           in nth_opt (trees treeStore) (iMin distances))"

section \<open>The actions of the tree store\<close>

text \<open>
  \<open>fetch_trees\<close> sets the flag and issues the request; the promise of the request
  settles later, fulfilled with the payload \<open>response.data.data\<close> or rejected. The
  \<open>then\<close> callback runs on fulfilment only, the \<open>finally\<close> callback on both paths,
  after it.
\<close>

datatype response = Fulfilled "Tree list" | Rejected

definition fetch_trees :: "TreeStore \<Rightarrow> TreeStore" where
  "fetch_trees s = s\<lparr>loading := True\<rparr>"

definition then_callback :: "Tree list \<Rightarrow> TreeStore \<Rightarrow> TreeStore" where
  "then_callback payload s = s\<lparr>trees := payload\<rparr>"

definition finally_callback :: "TreeStore \<Rightarrow> TreeStore" where
  "finally_callback s = s\<lparr>loading := False\<rparr>"

fun settle :: "response \<Rightarrow> TreeStore \<Rightarrow> TreeStore" where
  "settle (Fulfilled payload) s = finally_callback (then_callback payload s)"
| "settle Rejected s = finally_callback s"

section \<open>The actions of the location store\<close>

text \<open>
  The two fields of \<open>geoLocation.coords\<close> that the success callback reads.
\<close>

record GeolocationCoordinates =
  coords_latitude :: real
  coords_longitude :: real

text \<open>
  \<open>locate_user\<close> takes whether \<open>navigator.geolocation\<close> is present and returns the
  new state together with whether \<open>getCurrentPosition\<close> was called.
\<close>

definition locate_user :: "bool \<Rightarrow> LocationStore \<Rightarrow> LocationStore \<times> bool" where
  "locate_user geolocation s =
     (if \<not> geolocation then (s\<lparr>locatable := False\<rparr>, False) else (s, True))"

definition success_callback :: "GeolocationCoordinates \<Rightarrow> LocationStore \<Rightarrow> LocationStore" where
  "success_callback coords s =
     (let s1 = s\<lparr>location_value := (location_value s)\<lparr>latitude := coords_latitude coords\<rparr>\<rparr>;
          s2 = s1\<lparr>location_value := (location_value s1)\<lparr>longitude := coords_longitude coords\<rparr>\<rparr>
      in s2\<lparr>locatable := True\<rparr>)"

text \<open>
  The error callback receives a \<open>GeolocationPositionError\<close>, whose code names the
  cause; the callback only logs it.
\<close>

datatype GeolocationPositionError = PERMISSION_DENIED | POSITION_UNAVAILABLE | TIMEOUT

definition error_callback :: "GeolocationPositionError \<Rightarrow> LocationStore \<Rightarrow> LocationStore" where
  "error_callback error s = s\<lparr>locatable := False\<rparr>"

section \<open>Runs of the two stores\<close>








section \<open>Auxiliary notions and scenario data\<close>

text \<open>
  \<open>first_min ds k\<close>: the index \<open>k\<close> is in range, no element of \<open>ds\<close> is smaller than
  the one at \<open>k\<close>, and every element before \<open>k\<close> is strictly greater.
\<close>

definition first_min :: "'a::ord list \<Rightarrow> nat \<Rightarrow> bool" where
  "first_min ds k \<longleftrightarrow>
     k < length ds \<and> (\<forall>j < length ds. \<not> ds ! j < ds ! k) \<and> (\<forall>j < k. ds ! k < ds ! j)"


text \<open>The entities of the scenarios: A at (0,0), B at (1,1), and a second B at (0,0).\<close>

definition treeA :: Tree where
  "treeA = \<lparr>tree_id = ''A'', name = ''A'', description = [],
      location = \<lparr>latitude = 0, longitude = 0\<rparr>, image_url = [], tree_url = []\<rparr>"

definition treeB :: Tree where
  "treeB = \<lparr>tree_id = ''B'', name = ''B'', description = [],
      location = \<lparr>latitude = 1, longitude = 1\<rparr>, image_url = [], tree_url = []\<rparr>"


section \<open>The left-to-right scan\<close>

text \<open>
  The scan needs nothing of the distances but a linear order: it ends at the first
  index of a least element.
\<close>

lemma reducer_less:
  "p < length ds \<Longrightarrow> x < ds ! p \<Longrightarrow> reducer ds p x i = i"
  by (simp add: reducer_def nth_opt_def)

lemma reducer_not_less:
  "\<not> x < ds ! p \<Longrightarrow> reducer ds p x i = p"
  by (simp add: reducer_def nth_opt_def)

lemma drop_eq_ConsD:
  assumes "drop i ds = x # rest"
  shows "i < length ds" and "x = ds ! i" and "drop (Suc i) ds = rest"
proof -
  show len: "i < length ds"
    using assms by (cases "i < length ds") simp_all
  from Cons_nth_drop_Suc [OF len] assms show "x = ds ! i" and "drop (Suc i) ds = rest"
    by simp_all
qed

text \<open>
  The invariant of the scan at index \<open>i\<close>: the accumulator is in range, not beyond
  \<open>i\<close>, least among the elements before \<open>i\<close> and strictly below those before itself.
\<close>

lemma reduce_from_scan:
  fixes ds :: "'a::linorder list"
  assumes "drop i ds = rest" and "acc < length ds" and "acc \<le> i"
    and "\<forall>j < i. ds ! acc \<le> ds ! j" and "\<forall>j < acc. ds ! acc < ds ! j"
  shows "first_min ds (reduce_from ds acc rest i)"
  using assms
proof (induction rest arbitrary: acc i)
  case Nil
  then have "length ds \<le> i" by simp
  with Nil show ?case by (auto simp: first_min_def not_less)
next
  case (Cons x rest)
  note d = drop_eq_ConsD [OF Cons.prems(1)]
  show ?case
  proof (cases "x < ds ! acc")
    case True
    then have r: "reducer ds acc x i = i"
      using Cons.prems(2) by (simp add: reducer_less)
    have "first_min ds (reduce_from ds i rest (Suc i))"
    proof (rule Cons.IH [OF d(3) d(1)])
      show "i \<le> Suc i" by simp
      show "\<forall>j < Suc i. ds ! i \<le> ds ! j"
        using True Cons.prems(4) d(2) by (auto simp: less_Suc_eq)
      show "\<forall>j < i. ds ! i < ds ! j"
        using True Cons.prems(4) d(2) by auto
    qed
    with r show ?thesis by simp
  next
    case False
    then have r: "reducer ds acc x i = acc"
      by (simp add: reducer_not_less)
    have "first_min ds (reduce_from ds acc rest (Suc i))"
    proof (rule Cons.IH [OF d(3) Cons.prems(2)])
      show "acc \<le> Suc i" using Cons.prems(3) by simp
      show "\<forall>j < Suc i. ds ! acc \<le> ds ! j"
        using False Cons.prems(4) d(2) by (auto simp: less_Suc_eq)
      show "\<forall>j < acc. ds ! acc < ds ! j" by (rule Cons.prems(5))
    qed
    with r show ?thesis by simp
  qed
qed

lemma iMin_first_min:
  fixes ds :: "'a::linorder list"
  assumes "ds \<noteq> []"
  shows "first_min ds (iMin ds)"
  unfolding iMin_def
  by (rule reduce_from_scan) (use assms in simp_all)

lemma first_min_map:
  fixes f :: "'b \<Rightarrow> 'a::linorder"
  assumes "first_min (map f xs) k"
  shows "k < length xs"
    and "\<And>j. j < length xs \<Longrightarrow> f (xs ! k) \<le> f (xs ! j)"
    and "\<And>j. j < k \<Longrightarrow> f (xs ! k) < f (xs ! j)"
proof -
  from assms show k: "k < length xs" by (simp add: first_min_def)
  show "f (xs ! k) \<le> f (xs ! j)" if "j < length xs" for j
  proof -
    from assms that have "\<not> map f xs ! j < map f xs ! k"
      unfolding first_min_def by auto
    with that k show ?thesis by (simp add: not_less)
  qed
  show "f (xs ! k) < f (xs ! j)" if "j < k" for j
  proof -
    from assms that have "map f xs ! k < map f xs ! j"
      unfolding first_min_def by auto
    with that k show ?thesis by simp
  qed
qed

section \<open>The nearest tree\<close>


text \<open>
  When the three guards pass, the getter returns the tree at the index the scan
  selects, and that index is the first one of least distance.
\<close>

lemma closest_tree_guards_pass:
  assumes "locatable ls" and "\<not> loading ts" and "trees ts \<noteq> []"
  defines "ds \<equiv> map (distance (location_value ls)) (trees ts)"
  shows "closest_tree ts ls = Some (trees ts ! iMin ds)" and "first_min ds (iMin ds)"
proof -
  from assms(3) have "ds \<noteq> []" by (simp add: ds_def)
  then show fm: "first_min ds (iMin ds)" by (rule iMin_first_min)
  then have "iMin ds < length (trees ts)" by (simp add: first_min_def ds_def)
  with assms(1-3) show "closest_tree ts ls = Some (trees ts ! iMin ds)"
    by (simp add: closest_tree_def nth_opt_def ds_def Let_def)
qed





text \<open>
  C3. \<open>closest_tree\<close> returns no result whenever the user is not locatable, or the
  store is loading, or the store holds no tree; any one of the three suffices,
  whatever the rest of the two states.
\<close>

theorem closest_tree_guards:
  assumes "\<not> locatable ls \<or> loading ts \<or> trees ts = []"
  shows "closest_tree ts ls = None"
  using assms by (auto simp: closest_tree_def)

text \<open>One state for each guard, the other two guards passing.\<close>

theorem closest_tree_guards_witness:
  "closest_tree \<lparr>trees = [treeA, treeB], loading = False\<rparr>
       \<lparr>locatable = False, location_value = \<lparr>latitude = 0, longitude = 0\<rparr>\<rparr> = None
   \<and> closest_tree \<lparr>trees = [treeA, treeB], loading = True\<rparr>
       \<lparr>locatable = True, location_value = \<lparr>latitude = 0, longitude = 0\<rparr>\<rparr> = None
   \<and> closest_tree \<lparr>trees = [], loading = False\<rparr>
       \<lparr>locatable = True, location_value = \<lparr>latitude = 0, longitude = 0\<rparr>\<rparr> = None"
proof (intro conjI)
  show "closest_tree \<lparr>trees = [treeA, treeB], loading = False\<rparr>
       \<lparr>locatable = False, location_value = \<lparr>latitude = 0, longitude = 0\<rparr>\<rparr> = None"
    by (rule closest_tree_guards) simp
  show "closest_tree \<lparr>trees = [treeA, treeB], loading = True\<rparr>
       \<lparr>locatable = True, location_value = \<lparr>latitude = 0, longitude = 0\<rparr>\<rparr> = None"
    by (rule closest_tree_guards) simp
  show "closest_tree \<lparr>trees = [], loading = False\<rparr>
       \<lparr>locatable = True, location_value = \<lparr>latitude = 0, longitude = 0\<rparr>\<rparr> = None"
    by (rule closest_tree_guards) simp
qed

text \<open>
  C10. When the three guards pass, the index selected by the scan is within the
  bounds of the store, so the read \<open>trees.value[iMin]\<close> is in range and the result
  is a tree of the store, never \<open>undefined\<close>.
\<close>

theorem closest_tree_in_bounds:
  assumes "locatable ls" and "\<not> loading ts" and "trees ts \<noteq> []"
  shows "iMin (map (distance (location_value ls)) (trees ts)) < length (trees ts)
         \<and> closest_tree ts ls = Some (trees ts ! iMin (map (distance (location_value ls)) (trees ts)))
         \<and> closest_tree ts ls \<noteq> None
         \<and> (\<exists>t \<in> set (trees ts). closest_tree ts ls = Some t)"
proof -
  let ?k = "iMin (map (distance (location_value ls)) (trees ts))"
  from closest_tree_guards_pass [OF assms]
  have res: "closest_tree ts ls = Some (trees ts ! ?k)"
    and fm: "first_min (map (distance (location_value ls)) (trees ts)) ?k"
    by simp_all
  note k = first_min_map(1) [OF fm]
  then have "trees ts ! ?k \<in> set (trees ts)" by simp
  with res k show ?thesis by simp
qed

theorem closest_tree_in_bounds_witness:
  "iMin (map (distance \<lparr>latitude = 2, longitude = 2\<rparr>) [treeA, treeB]) < 2
   \<and> closest_tree \<lparr>trees = [treeA, treeB], loading = False\<rparr>
       \<lparr>locatable = True, location_value = \<lparr>latitude = 2, longitude = 2\<rparr>\<rparr>
     = Some ([treeA, treeB] ! iMin (map (distance \<lparr>latitude = 2, longitude = 2\<rparr>) [treeA, treeB]))"
proof -
  let ?ts = "\<lparr>trees = [treeA, treeB], loading = False\<rparr>"
  let ?ls = "\<lparr>locatable = True, location_value = \<lparr>latitude = 2, longitude = 2\<rparr>\<rparr>"
  have "locatable ?ls" and "\<not> loading ?ts" and "trees ?ts \<noteq> []" by simp_all
  from closest_tree_in_bounds [OF this] show ?thesis by simp
qed

section \<open>Fetching the trees\<close>

text \<open>
  C4. \<open>loading\<close> is true right after \<open>fetch_trees\<close> is invoked, and false once the
  request has settled, whether it was fulfilled or rejected and whatever the
  state it settles in; in particular a fetch that settles never leaves the flag
  set.
\<close>

theorem fetch_trees_loading:
  "loading (fetch_trees s) = True
   \<and> loading (settle (Fulfilled payload) s') = False
   \<and> loading (settle Rejected s') = False
   \<and> loading (settle r (fetch_trees s)) = False"
  by (cases r) (simp_all add: fetch_trees_def then_callback_def finally_callback_def)

text \<open>
  C5. When the request fails, the trees are those held before and \<open>loading\<close> is
  false; the state after the failure differs from the state before it in the
  flag only, so nothing of the error is kept in the store.
\<close>

theorem fetch_trees_failure:
  "settle Rejected s = s\<lparr>loading := False\<rparr>
   \<and> trees (settle Rejected s) = trees s
   \<and> loading (settle Rejected s) = False
   \<and> trees (settle Rejected (fetch_trees s)) = trees s"
  by (simp add: fetch_trees_def finally_callback_def)

section \<open>Locating the user\<close>

text \<open>
  C6. When \<open>navigator.geolocation\<close> is absent, \<open>locate_user\<close> sets \<open>locatable\<close> to
  false, keeps the location and returns without calling \<open>getCurrentPosition\<close>.
  When the acquisition fails, for any error, the error callback sets \<open>locatable\<close>
  to false and keeps the location.
\<close>

theorem locate_user_failure:
  "locate_user False s = (s\<lparr>locatable := False\<rparr>, False)
   \<and> locatable (fst (locate_user False s)) = False
   \<and> location_value (fst (locate_user False s)) = location_value s
   \<and> error_callback err s = s\<lparr>locatable := False\<rparr>
   \<and> locatable (error_callback err s) = False
   \<and> location_value (error_callback err s) = location_value s"
  by (simp add: locate_user_def error_callback_def)

text \<open>
  C7. When the acquisition succeeds, the location is the reported coordinate, in
  latitude and in longitude, and \<open>locatable\<close> is true.
\<close>

theorem locate_user_success:
  "success_callback coords s =
     \<lparr>locatable = True,
      location_value = \<lparr>latitude = coords_latitude coords, longitude = coords_longitude coords\<rparr>\<rparr>"
  by (simp add: success_callback_def Let_def)

section \<open>Order of the two updates\<close>






section \<open>The fields of a tree\<close>


end
